theory Spec2Isabelle
  imports Main
begin

section \<open>JavaScript strings\<close>

text \<open>
  A JavaScript string is modelled as a \<^typ>\<open>string\<close> holding its UTF-8 bytes. Every byte
  of a non-ASCII character is at least 0x80, so no such byte is \<open>@\<close>, \<open>+\<close> or a digit, and
  the ASCII-only tests of the source (\<open>includes('@')\<close>, the class \<open>[^\d+]\<close> without the
  \<open>u\<close> flag, \<open>startsWith('+')\<close>) decide the same on bytes as on UTF-16 code units.
\<close>

text \<open>\<open>s.startsWith(p)\<close>\<close>

fun startsWith :: "string \<Rightarrow> string \<Rightarrow> bool" where
  "startsWith s [] = True"
| "startsWith [] (p # ps) = False"
| "startsWith (c # cs) (p # ps) = (c = p \<and> startsWith cs ps)"

text \<open>\<open>s.includes(p)\<close>: \<open>p\<close> occurs in \<open>s\<close> as a contiguous, case-sensitive substring.\<close>

fun str_includes :: "string \<Rightarrow> string \<Rightarrow> bool" where
  "str_includes [] p = (p = [])"
| "str_includes (c # cs) p = (startsWith (c # cs) p \<or> str_includes cs p)"

text \<open>\<open>s.substring(n)\<close> for a non-negative integer \<open>n\<close>.\<close>

definition substring :: "string \<Rightarrow> nat \<Rightarrow> string" where
  "substring s n = drop n s"

text \<open>The regular expression class \<open>\d\<close> (no \<open>u\<close> flag): the ten ASCII digits.\<close>

definition is_digit :: "char \<Rightarrow> bool" where
  "is_digit c \<longleftrightarrow> c \<in> set ''0123456789''"

text \<open>
  \<open>s.replace(/[^\d+]/g, '')\<close>: the scan removes every character matched by the negated
  class, that is every character that is neither a digit nor \<open>+\<close>.
\<close>

fun replace_non_digit_plus :: "string \<Rightarrow> string" where
  "replace_non_digit_plus [] = []"
| "replace_non_digit_plus (c # cs) =
     (if \<not> (is_digit c \<or> c = CHR ''+'') then replace_non_digit_plus cs
      else c # replace_non_digit_plus cs)"

section \<open>MessageService.formatPhoneNumber\<close>

definition formatPhoneNumber :: "string \<Rightarrow> string" where
  "formatPhoneNumber phoneNumber =
     (if str_includes phoneNumber ''@'' then phoneNumber
      else
        let cleaned = replace_non_digit_plus phoneNumber;
            cleaned = (if startsWith cleaned ''+'' then substring cleaned 1 else cleaned)
        in cleaned @ ''@s.whatsapp.net'')"

text \<open>Decimal rendering of an array index inside a template string.\<close>

fun show_nat :: "nat \<Rightarrow> string" where
  "show_nat n =
     (if n < 10 then [''0123456789'' ! n]
      else show_nat (n div 10) @ [''0123456789'' ! (n mod 10)])"

declare show_nat.simps [simp del]

section \<open>Errors\<close>

text \<open>
  A JavaScript error object: its \<open>name\<close>, its \<open>message\<close>, and, when it is a \<open>Boom\<close> error
  of the transport library, its \<open>output.statusCode\<close>. \<open>toString\<close> is
  \<open>Error.prototype.toString\<close>.
\<close>

datatype js_error = JsError (err_name: string) (err_message: string) (boom_statusCode: "nat option")

definition new_Error :: "string \<Rightarrow> js_error" where
  "new_Error msg = JsError ''Error'' msg None"

definition toString :: "js_error \<Rightarrow> string" where
  "toString e =
     (if err_name e = [] then err_message e
      else if err_message e = [] then err_name e
      else err_name e @ '': '' @ err_message e)"

section \<open>The world: sockets, registry, caches, disk, timers, effects\<close>

type_synonym sessionId = string
type_synonym addr = nat

text \<open>
  An absolute, normalised POSIX path: its components below the file-system root, the root
  itself being the empty list. Only directories are kept; the files in them are the
  transport library's.
\<close>

type_synonym path = "string list"

text \<open>\<open>s.split(c)\<close>: the pieces of \<open>s\<close> between the occurrences of \<open>c\<close>.\<close>

fun split_on :: "char \<Rightarrow> string \<Rightarrow> string list" where
  "split_on c [] = [[]]"
| "split_on c (x # xs) =
     (if x = c then [] # split_on c xs
      else (case split_on c xs of
              [] \<Rightarrow> [[x]]
            | piece # pieces \<Rightarrow> (x # piece) # pieces))"

text \<open>
  One component appended to a normalised path: an empty component and \<open>.\<close> change nothing,
  \<open>..\<close> goes one directory up and stays at the root when there.
\<close>

definition path_step :: "path \<Rightarrow> string \<Rightarrow> path" where
  "path_step p component =
     (if component = [] \<or> component = ''.'' then p
      else if component = ''..'' then butlast p
      else p @ [component])"

text \<open>\<open>path.join(base, s)\<close> on POSIX, for an absolute normalised \<open>base\<close>.\<close>

definition path_join :: "path \<Rightarrow> string \<Rightarrow> path" where
  "path_join base s = foldl path_step base (split_on CHR ''/'' s)"

text \<open>Whether \<open>q\<close> is \<open>p\<close> or lies below it.\<close>

definition is_under :: "path \<Rightarrow> path \<Rightarrow> bool" where
  "is_under p q \<longleftrightarrow> take (length p) q = p"

text \<open>
  The \<open>callbacks\<close> argument of \<open>createSession\<close>. The four handlers are opaque to the
  manager; the model keeps whether each was supplied and records every call in the trace.
\<close>

record callbacks =
  cb_isNew :: bool
  cb_retryCount :: "nat option"
  cb_onQR :: bool
  cb_onConnected :: bool
  cb_onDisconnected :: bool
  cb_onMessage :: bool

text \<open>A transport socket object. \<open>sock_user\<close> is \<open>sock.user\<close>, set once authenticated.\<close>

record sock =
  sock_sessionId :: sessionId
  sock_callbacks :: callbacks
  sock_version :: "nat list"
  sock_user :: "string option"
  sock_live :: bool

datatype payload =
    TextP string
  | ButtonP string "(string \<times> string) list"

datatype send_outcome = Delivered string | Rejected js_error

datatype timer =
    CreateSessionT sessionId callbacks
  | RemoveSessionT sessionId

datatype effect =
    Send addr string payload
  | Wait nat
  | LogError string
  | SocketOpened addr
  | SocketEnded addr
  | CallQR sessionId string
  | CallConnected sessionId string
  | CallDisconnected sessionId string

datatype event_kind = failure | reconnect | fatal_error

text \<open>
  The state of the process and of its surroundings.
  \<^item> \<open>sockets\<close>, \<open>next_addr\<close>: the socket objects created so far, by identity;
  \<^item> \<open>sessions\<close>, \<open>qrCodes\<close>: the two maps of the \<open>SessionManager\<close>;
  \<^item> \<open>authDir\<close>, \<open>dirs\<close>: the manager's \<open>this.authDir\<close> and the directories that exist on
    disk, each an absolute path;
  \<^item> \<open>health\<close>: the per-session event logs of the health monitor;
  \<^item> \<open>clock\<close>: the current time in milliseconds;
  \<^item> \<open>timers\<close>: the callbacks handed to \<open>setTimeout\<close> and not awaited, with their delay;
  \<^item> \<open>trace\<close>: the observable effects in the order they happened;
  \<^item> \<open>end_throws\<close>, \<open>rmSync_throws\<close>, \<open>send_result\<close>, \<open>toDataURL\<close>, \<open>rate_ok\<close>: what the
    surroundings answer: whether \<open>sock.end\<close> throws for a socket, whether \<open>fs.rmSync\<close>
    throws for a path, how the transport answers the \<open>n\<close>-th send, how a QR string is
    rendered, and the rate bound of the health policy.
\<close>

record world =
  sockets :: "addr \<Rightarrow> sock"
  next_addr :: addr
  sessions :: "sessionId \<rightharpoonup> addr"
  qrCodes :: "sessionId \<rightharpoonup> string"
  authDir :: path
  dirs :: "path list"
  health :: "sessionId \<rightharpoonup> (event_kind \<times> nat) list"
  clock :: nat
  timers :: "(nat \<times> timer) list"
  trace :: "effect list"
  end_throws :: "addr \<Rightarrow> bool"
  rmSync_throws :: "path \<Rightarrow> bool"
  send_result :: "nat \<Rightarrow> send_outcome"
  toDataURL :: "string \<Rightarrow> string"
  rate_ok :: "(event_kind \<times> nat) list \<Rightarrow> nat \<Rightarrow> bool"

text \<open>\<open>console.error\<close>: the text logged, its arguments joined, a leading emoji left out.
  \<open>console.log\<close> is not recorded.\<close>

definition log_error :: "world \<Rightarrow> string \<Rightarrow> world" where
  "log_error w s = w\<lparr>trace := trace w @ [LogError s]\<rparr>"

text \<open>\<open>await new Promise(resolve => setTimeout(resolve, ms))\<close>\<close>

definition wait :: "nat \<Rightarrow> world \<Rightarrow> world" where
  "wait ms w = w\<lparr>clock := clock w + ms, trace := trace w @ [Wait ms]\<rparr>"

text \<open>\<open>setTimeout(f, ms)\<close> without waiting for it.\<close>

definition setTimeout :: "timer \<Rightarrow> nat \<Rightarrow> world \<Rightarrow> world" where
  "setTimeout f ms w = w\<lparr>timers := timers w @ [(ms, f)]\<rparr>"

text \<open>\<open>path.join(this.authDir, sessionId)\<close>\<close>

definition sessionPath :: "world \<Rightarrow> sessionId \<Rightarrow> path" where
  "sessionPath w sessionId = path_join (authDir w) sessionId"

definition existsSync :: "world \<Rightarrow> path \<Rightarrow> bool" where
  "existsSync w p \<longleftrightarrow> p \<in> set (dirs w)"

text \<open>\<open>fs.mkdirSync(p, { recursive: true })\<close>: the directory and every missing ancestor.\<close>

definition mkdirSync :: "path \<Rightarrow> world \<Rightarrow> world" where
  "mkdirSync p w =
     w\<lparr>dirs := dirs w @
          filter (\<lambda>q. q \<notin> set (dirs w)) (map (\<lambda>n. take n p) [0 ..< Suc (length p)])\<rparr>"

text \<open>\<open>fs.rmSync(p, { recursive: true, force: true })\<close> when it does not throw: the
  directory and everything below it.\<close>

definition rmSync :: "path \<Rightarrow> world \<Rightarrow> world" where
  "rmSync p w = w\<lparr>dirs := filter (\<lambda>q. \<not> is_under p q) (dirs w)\<rparr>"

fun is_send :: "effect \<Rightarrow> bool" where
  "is_send (Send a jid p) = True"
| "is_send _ = False"

text \<open>The send attempts made so far, oldest first.\<close>

definition sends :: "world \<Rightarrow> effect list" where
  "sends w = filter is_send (trace w)"

text \<open>
  \<open>session.sendMessage(jid, content)\<close> on the socket \<open>a\<close>: the attempt is recorded and the
  transport answers it.
\<close>

definition transport_send :: "world \<Rightarrow> addr \<Rightarrow> string \<Rightarrow> payload \<Rightarrow> send_outcome \<times> world" where
  "transport_send w a jid content =
     (send_result w (length (sends w)), w\<lparr>trace := trace w @ [Send a jid content]\<rparr>)"

text \<open>
  \<open>sock.end(undefined)\<close>: closes the transport connection, or throws. The close event the
  transport emits afterwards reaches the manager through \<open>connection_update\<close>.
\<close>

definition sock_end :: "world \<Rightarrow> addr \<Rightarrow> js_error option \<times> world" where
  "sock_end w a =
     (if end_throws w a then (Some (new_Error ''socket close failed''), w)
      else (None, w\<lparr>sockets := (sockets w)(a := (sockets w a)\<lparr>sock_live := False\<rparr>),
                     trace := trace w @ [SocketEnded a]\<rparr>))"

text \<open>The sockets opened for a session id that have not been ended.\<close>

definition live_sockets :: "world \<Rightarrow> sessionId \<Rightarrow> addr list" where
  "live_sockets w sessionId =
     filter (\<lambda>a. sock_sessionId (sockets w a) = sessionId \<and> sock_live (sockets w a))
       [0 ..< next_addr w]"

text \<open>Sequencing inside a \<open>try\<close> block: a thrown error skips the statements after it.\<close>

definition and_then ::
  "js_error option \<times> world \<Rightarrow> (world \<Rightarrow> js_error option \<times> world) \<Rightarrow> js_error option \<times> world" where
  "and_then r f = (case r of (Some e, w) \<Rightarrow> (Some e, w) | (None, w) \<Rightarrow> f w)"

section \<open>Connection health monitor\<close>

text \<open>
  \<open>NetworkOptimizer.js\<close> is required by \<open>SessionManager.js\<close> and is not among the sources.
  Its operations follow section 4.2 of the specification: a per-session append-only event
  log with the kinds failure, reconnect and fatal\_error, and a decision derived from it.
\<close>

text \<open>Modelled from the spec: the event log of a session, of the missing
  \<open>NetworkOptimizer.js\<close>; a session whose log was never created or was discarded has no
  recorded event.\<close>

definition events :: "world \<Rightarrow> sessionId \<Rightarrow> (event_kind \<times> nat) list" where
  "events w sessionId = (case health w sessionId of None \<Rightarrow> [] | Some evs \<Rightarrow> evs)"

text \<open>Modelled from the spec: \<open>startMonitoring(id)\<close> of the missing \<open>NetworkOptimizer.js\<close>
  initialises the log; the record is created on the first monitoring start.\<close>

definition startMonitoring :: "sessionId \<Rightarrow> world \<Rightarrow> world" where
  "startMonitoring sessionId w =
     (case health w sessionId of
        None \<Rightarrow> w\<lparr>health := (health w)(sessionId \<mapsto> [])\<rparr>
      | Some evs \<Rightarrow> w)"

text \<open>Modelled from the spec: \<open>recordEvent(id, kind)\<close> of the missing \<open>NetworkOptimizer.js\<close>
  appends the kind with a timestamp.\<close>

definition recordEvent :: "sessionId \<Rightarrow> event_kind \<Rightarrow> world \<Rightarrow> world" where
  "recordEvent sessionId kind w =
     w\<lparr>health := (health w)(sessionId \<mapsto> events w sessionId @ [(kind, clock w)])\<rparr>"

text \<open>Modelled from the spec: \<open>cleanup(id)\<close> of the missing \<open>NetworkOptimizer.js\<close> discards
  the log.\<close>

definition cleanup :: "sessionId \<Rightarrow> world \<Rightarrow> world" where
  "cleanup sessionId w = w\<lparr>health := (health w)(sessionId := None)\<rparr>"

text \<open>Whether an event of the given kind is in a log.\<close>

definition recorded :: "event_kind \<Rightarrow> (event_kind \<times> nat) list \<Rightarrow> bool" where
  "recorded kind evs = list_ex (\<lambda>ev. fst ev = kind) evs"

text \<open>Modelled from the spec: \<open>shouldAttemptConnection(id)\<close> of the missing
  \<open>NetworkOptimizer.js\<close> applies a policy to the log: deny if a fatal\_error was ever
  recorded, and bound the reconnect rate. The specification gives the rate bound by example
  only (failures within a recent window exceeding a threshold); it is the parameter
  \<open>rate_ok\<close> of the world, applied to the log and the current time.\<close>

definition shouldAttemptConnection :: "world \<Rightarrow> sessionId \<Rightarrow> bool" where
  "shouldAttemptConnection w sessionId =
     (\<not> recorded fatal_error (events w sessionId) \<and>
      rate_ok w (events w sessionId) (clock w))"

section \<open>SessionManager\<close>

definition getSession :: "world \<Rightarrow> sessionId \<Rightarrow> addr option" where
  "getSession w sessionId = sessions w sessionId"

text \<open>\<open>isConnected\<close>: \<open>session && session.user\<close>, read for its truth value.\<close>

definition isConnected :: "world \<Rightarrow> sessionId \<Rightarrow> bool" where
  "isConnected w sessionId =
     (case sessions w sessionId of
        None \<Rightarrow> False
      | Some session \<Rightarrow> sock_user (sockets w session) \<noteq> None)"

text \<open>
  \<open>removeSession\<close>: the four statements of its \<open>try\<close> block, in order, and the \<open>catch\<close> that
  logs whatever one of them throws.
\<close>

definition removeSession_socket :: "sessionId \<Rightarrow> world \<Rightarrow> js_error option \<times> world" where
  "removeSession_socket sessionId w =
     (case sessions w sessionId of
        Some sock \<Rightarrow>
          and_then (sock_end w sock)
            (\<lambda>w'. (None, w'\<lparr>sessions := (sessions w')(sessionId := None)\<rparr>))
      | None \<Rightarrow> (None, w))"

definition removeSession_qr :: "sessionId \<Rightarrow> world \<Rightarrow> js_error option \<times> world" where
  "removeSession_qr sessionId w =
     (if qrCodes w sessionId \<noteq> None
      then (None, w\<lparr>qrCodes := (qrCodes w)(sessionId := None)\<rparr>)
      else (None, w))"

definition removeSession_files :: "sessionId \<Rightarrow> world \<Rightarrow> js_error option \<times> world" where
  "removeSession_files sessionId w =
     (let dir = sessionPath w sessionId
      in if existsSync w dir
         then
           let w' = wait 1000 w
           in if rmSync_throws w' dir then (Some (new_Error ''rmSync failed''), w')
              else (None, rmSync dir w')
         else (None, w))"

definition removeSession :: "world \<Rightarrow> sessionId \<Rightarrow> world" where
  "removeSession w sessionId =
     (case and_then (and_then (and_then (removeSession_socket sessionId w)
                     (removeSession_qr sessionId))
                     (\<lambda>w'. (None, cleanup sessionId w')))
                     (removeSession_files sessionId) of
        (None, w') \<Rightarrow> w'
      | (Some error, w') \<Rightarrow>
          log_error w' (''Error removing session '' @ sessionId @ '': '' @ toString error))"

text \<open>\<open>disconnectSession\<close>: no \<open>try\<close>; an error of \<open>session.end()\<close> reaches the caller.\<close>

definition disconnectSession :: "world \<Rightarrow> sessionId \<Rightarrow> js_error option \<times> world" where
  "disconnectSession w sessionId =
     (case sessions w sessionId of
        Some session \<Rightarrow>
          and_then (sock_end w session)
            (\<lambda>w'. (None, w'\<lparr>sessions := (sessions w')(sessionId := None)\<rparr>))
      | None \<Rightarrow> (None, w))"

definition handleSessionCorruption :: "world \<Rightarrow> sessionId \<Rightarrow> bool \<Rightarrow> world" where
  "handleSessionCorruption w sessionId onDisconnected =
     (let w0 = log_error w (''Fatal cryptographic error (Bad MAC) for session '' @ sessionId @
                            ''. Deleting session to recover.'');
          w1 = recordEvent sessionId fatal_error w0;
          w2 = removeSession w1 sessionId
      in if onDisconnected
         then w2\<lparr>trace := trace w2 @
                [CallDisconnected sessionId ''Session corrupted (Bad MAC). Please scan QR again.'']\<rparr>
         else w2)"

text \<open>
  What the surroundings do during one call of \<open>createSession\<close>: whether the first and the
  second \<open>useMultiFileAuthState\<close> reject, the version \<open>fetchLatestBaileysVersion\<close> returns
  (\<open>None\<close> when it rejects), and whether \<open>makeWASocket\<close> throws. \<open>fs.existsSync\<close> and
  \<open>fs.mkdirSync\<close> are taken not to throw.
\<close>

record create_env =
  auth_load_throws :: bool
  auth_reload_throws :: bool
  latest_version :: "nat list option"
  makeWASocket_throws :: bool

text \<open>
  \<open>makeWASocket\<close>: a new socket object, connecting, not authenticated. The handlers that
  \<open>createSession\<close> registers on it close over \<open>sessionId\<close> and \<open>callbacks\<close>, which the
  socket record keeps for them.
\<close>

definition makeWASocket :: "world \<Rightarrow> sessionId \<Rightarrow> callbacks \<Rightarrow> nat list \<Rightarrow> addr \<times> world" where
  "makeWASocket w sessionId cbs version =
     (let a = next_addr w
      in (a, w\<lparr>sockets := (sockets w)(a :=
                  \<lparr>sock_sessionId = sessionId, sock_callbacks = cbs, sock_version = version,
                   sock_user = None, sock_live = True\<rparr>),
                next_addr := a + 1,
                trace := trace w @ [SocketOpened a]\<rparr>))"

text \<open>Loading the credentials, with the one recovery of the inner \<open>try\<close>.\<close>

definition createSession_auth :: "create_env \<Rightarrow> sessionId \<Rightarrow> world \<Rightarrow> js_error option \<times> world" where
  "createSession_auth env sessionId w =
     (if auth_load_throws env
      then
        and_then
          (if existsSync w (sessionPath w sessionId)
           then (if rmSync_throws w (sessionPath w sessionId)
                 then (Some (new_Error ''rmSync failed''), w)
                 else (None, mkdirSync (sessionPath w sessionId)
                               (rmSync (sessionPath w sessionId) w)))
           else (None, w))
          (\<lambda>w'. if auth_reload_throws env then (Some (new_Error ''auth state unreadable''), w')
                 else (None, w'))
      else (None, w))"

text \<open>
  The part of \<open>createSession\<close> after the fast path. The value of \<open>getOptimalSettings()\<close> is
  bound and not used by the source, so it has no counterpart here.
\<close>

definition createSession_open ::
  "create_env \<Rightarrow> world \<Rightarrow> sessionId \<Rightarrow> callbacks \<Rightarrow> (js_error + addr) \<times> world" where
  "createSession_open env w sessionId cbs =
     (let w1 = (if cb_isNew cbs \<and> \<not> isConnected w sessionId then removeSession w sessionId else w);
          w2 = (if \<not> existsSync w1 (sessionPath w1 sessionId)
                then mkdirSync (sessionPath w1 sessionId) w1
                else w1)
      in case createSession_auth env sessionId w2 of
           (Some e, w3) \<Rightarrow> (Inl e, w3)
         | (None, w3) \<Rightarrow>
             let version = (case latest_version env of
                              Some v \<Rightarrow> v
                            | None \<Rightarrow> [2, 3000, 1015901307]);
                 w4 = startMonitoring sessionId w3
             in if makeWASocket_throws env then (Inl (new_Error ''makeWASocket failed''), w4)
                else
                  let (sock, w5) = makeWASocket w4 sessionId cbs version
                  in (Inr sock, w5\<lparr>sessions := (sessions w5)(sessionId \<mapsto> sock)\<rparr>))"

definition createSession ::
  "create_env \<Rightarrow> world \<Rightarrow> sessionId \<Rightarrow> callbacks \<Rightarrow> (js_error + addr) \<times> world" where
  "createSession env w sessionId cbs =
     (case (case sessions w sessionId of
              Some existing \<Rightarrow>
                if isConnected w sessionId then (Inr existing, w)
                else createSession_open env w sessionId cbs
            | None \<Rightarrow> createSession_open env w sessionId cbs) of
        (Inl error, w') \<Rightarrow>
          (Inl error,
           log_error w' (''Error creating session '' @ sessionId @ '': '' @ toString error))
      | (Inr sock, w') \<Rightarrow> (Inr sock, w'))"

subsection \<open>The handler of \<open>connection.update\<close>\<close>

datatype connection_state = Close | Open | Connecting

datatype lastDisconnect = LastDisconnect (ld_error: "js_error option")

record update =
  upd_connection :: "connection_state option"
  upd_lastDisconnect :: "lastDisconnect option"
  upd_qr :: "string option"

text \<open>
  \<open>Math.min(3000 * Math.pow(2, retryCount - 1), 10000)\<close>. The handler calls it with
  \<open>retryCount\<close> from 1 on; at 0 the power is one half. The products are whole numbers that
  floating point holds exactly until it overflows to infinity, far above the ceiling.
\<close>

definition retryDelay :: "nat \<Rightarrow> nat" where
  "retryDelay retryCount =
     min (if retryCount = 0 then 1500 else 3000 * 2 ^ (retryCount - 1)) 10000"

text \<open>\<open>DisconnectReason.loggedOut\<close>, the transport library's status code of a logout.\<close>

definition DisconnectReason_loggedOut :: nat where
  "DisconnectReason_loggedOut = 401"

definition on_qr :: "sessionId \<Rightarrow> callbacks \<Rightarrow> update \<Rightarrow> world \<Rightarrow> js_error option \<times> world" where
  "on_qr sessionId cbs upd w =
     (case upd_qr upd of
        None \<Rightarrow> (None, w)
      | Some qr \<Rightarrow>
          if qr = [] then (None, w)
          else
            let qrDataURL = toDataURL w qr;
                w1 = w\<lparr>qrCodes := (qrCodes w)(sessionId \<mapsto> qrDataURL)\<rparr>
            in (None, if cb_onQR cbs then w1\<lparr>trace := trace w1 @ [CallQR sessionId qrDataURL]\<rparr>
                      else w1))"

text \<open>
  The branch for \<open>connection === 'close'\<close>. The event reports that the connection of the
  socket \<open>a\<close> has closed, so the socket is no longer live. Reading \<open>lastDisconnect.error\<close>
  when the update carries no \<open>lastDisconnect\<close> is a \<open>TypeError\<close>.
\<close>

definition on_close ::
  "addr \<Rightarrow> sessionId \<Rightarrow> callbacks \<Rightarrow> update \<Rightarrow> world \<Rightarrow> js_error option \<times> world" where
  "on_close a sessionId cbs upd w =
     (if upd_connection upd = Some Close
      then
        let w0 = w\<lparr>sockets := (sockets w)(a := (sockets w a)\<lparr>sock_live := False\<rparr>)\<rparr>;
            w1 = recordEvent sessionId failure w0;
            shouldReconnect =
              (case upd_lastDisconnect upd of
                 Some (LastDisconnect (Some e)) \<Rightarrow>
                   (case boom_statusCode e of
                      Some statusCode \<Rightarrow> statusCode \<noteq> DisconnectReason_loggedOut
                    | None \<Rightarrow> True)
               | _ \<Rightarrow> True)
        in case upd_lastDisconnect upd of
             None \<Rightarrow> (Some (JsError ''TypeError'' ''Cannot read properties of undefined'' None), w1)
           | Some (LastDisconnect err) \<Rightarrow>
               let isBadMac =
                     (case err of
                        None \<Rightarrow> False
                      | Some e \<Rightarrow> str_includes (err_message e) ''Bad MAC'' \<or>
                                  str_includes (toString e) ''Bad MAC'')
               in if isBadMac
                  then (None, handleSessionCorruption w1 sessionId (cb_onDisconnected cbs))
                  else
                    let w2 =
                          (if shouldReconnect \<and> shouldAttemptConnection w1 sessionId
                           then
                             let retryCount = (case cb_retryCount cbs of None \<Rightarrow> 0 | Some n \<Rightarrow> n) + 1
                             in if retryCount \<le> 2
                                then setTimeout
                                       (CreateSessionT sessionId (cbs\<lparr>cb_retryCount := Some retryCount\<rparr>))
                                       (retryDelay retryCount)
                                       (recordEvent sessionId reconnect w1)
                                else w1
                           else setTimeout (RemoveSessionT sessionId) 3000 w1)
                    in (None,
                        if cb_onDisconnected cbs
                        then w2\<lparr>trace := trace w2 @
                               [CallDisconnected sessionId
                                  (case err of None \<Rightarrow> [] | Some e \<Rightarrow> toString e)]\<rparr>
                        else w2)
      else (None, w))"

definition on_open ::
  "addr \<Rightarrow> sessionId \<Rightarrow> callbacks \<Rightarrow> update \<Rightarrow> world \<Rightarrow> js_error option \<times> world" where
  "on_open a sessionId cbs upd w =
     (if upd_connection upd = Some Open
      then
        let w1 = w\<lparr>qrCodes := (qrCodes w)(sessionId := None)\<rparr>
        in (None,
            if cb_onConnected cbs
            then w1\<lparr>trace := trace w1 @
                   [CallConnected sessionId
                      (case sock_user (sockets w1 a) of
                         None \<Rightarrow> []
                       | Some user \<Rightarrow> takeWhile (\<lambda>c. c \<noteq> CHR '':'') user)]\<rparr>
            else w1)
      else (None, w))"

text \<open>
  The handler registered on the socket \<open>a\<close>, run for one update. A \<open>return\<close> inside the
  close branch ends the handler; the open branch cannot follow it, since the update's
  \<open>connection\<close> is then \<open>'close'\<close>.
\<close>

definition connection_update :: "world \<Rightarrow> addr \<Rightarrow> update \<Rightarrow> js_error option \<times> world" where
  "connection_update w a upd =
     (let sessionId = sock_sessionId (sockets w a);
          cbs = sock_callbacks (sockets w a)
      in and_then (and_then (on_qr sessionId cbs upd w)
                    (on_close a sessionId cbs upd))
                    (on_open a sessionId cbs upd))"

text \<open>The sink of the socket's logger: one line of the diagnostic stream.\<close>

definition logger_write :: "world \<Rightarrow> addr \<Rightarrow> string \<Rightarrow> world" where
  "logger_write w a msgStr =
     (if str_includes msgStr ''Bad MAC'' \<or> str_includes msgStr ''Session error''
      then handleSessionCorruption
             (log_error w (''DETECTED BAD MAC IN LOGS for '' @ sock_sessionId (sockets w a) @
                           '' - Triggering Cleanup''))
             (sock_sessionId (sockets w a))
             (cb_onDisconnected (sock_callbacks (sockets w a)))
      else w)"

section \<open>MessageService\<close>

text \<open>What \<open>sendMessage\<close> returns: \<open>false\<close>, \<open>null\<close>, or the transport's result.\<close>

datatype send_return = ReturnedFalse | ReturnedNull | Returned string

text \<open>
  The outer \<open>catch\<close> of \<open>sendMessage\<close>: whatever the body throws is logged and \<open>null\<close> is
  returned in its place.
\<close>

definition sendMessage_catch :: "string \<Rightarrow> (js_error + send_return) \<times> world \<Rightarrow> send_return \<times> world" where
  "sendMessage_catch phoneNumber r =
     (case r of
        (Inr v, w) \<Rightarrow> (v, w)
      | (Inl error, w) \<Rightarrow>
          (ReturnedNull,
           log_error w (''Failed to send message to '' @ phoneNumber @ '': '' @ err_message error)))"

text \<open>
  \<open>sendMessage\<close>. Inside the outer \<open>try\<close>, \<open>Inl\<close> is a thrown error and \<open>Inr\<close> a returned
  value; the retry is the source's recursive call, whose own outer \<open>catch\<close> has already
  run when it returns.
\<close>

function sendMessage ::
  "world \<Rightarrow> sessionId \<Rightarrow> string \<Rightarrow> string \<Rightarrow> nat \<Rightarrow> send_return \<times> world" where
  "sendMessage w sessionId phoneNumber message retryCount =
     sendMessage_catch phoneNumber
       (case getSession w sessionId of
          None \<Rightarrow>
            (Inr ReturnedFalse,
             log_error w (''[MessageService] Session '' @ sessionId @ '' not found''))
        | Some session \<Rightarrow>
            if sock_user (sockets w session) = None
            then (Inr ReturnedFalse,
                  log_error w (''[MessageService] Session '' @ sessionId @ '' not connected''))
            else
              let jid = formatPhoneNumber phoneNumber
              in (case transport_send w session jid (TextP message) of
                    (Delivered result, w1) \<Rightarrow> (Inr (Returned result), w1)
                  | (Rejected innerError, w1) \<Rightarrow>
                      (let errString = toString innerError
                       in if str_includes errString ''Bad MAC'' \<or> str_includes errString ''Session Error''
                          then
                            (Inl (new_Error ''CORRUPTED_SESSION: Please re-link WhatsApp''),
                             log_error
                               (log_error w1
                                  (''CRITICAL SESSION ERROR for '' @ sessionId @ '': '' @ errString))
                               ''[MessageService] This session appears corrupted. Advising user to re-link.'')
                          else if retryCount < 2
                          then
                            (case sendMessage (wait 2000 w1) sessionId phoneNumber message (retryCount + 1) of
                               (v, w2) \<Rightarrow> (Inr v, w2))
                          else (Inl innerError, w1))))"
  by pat_completeness auto
termination
  by (relation "measure (\<lambda>(w, sessionId, phoneNumber, message, retryCount). 2 - retryCount)") auto

declare sendMessage.simps [simp del]

text \<open>A button as the caller gives it: \<open>{id, text}\<close>, the id optional.\<close>

datatype button = Button (btn_id: "string option") (btn_text: string)

text \<open>
  \<open>buttons.map((btn, index) => ...)\<close>: the button id is \<open>btn.id\<close> when that is truthy and
  \<open>btn_<index>\<close> otherwise. The constant fields of the envelope (footer, type, header
  type) carry no information and are left out of \<^const>\<open>ButtonP\<close>.
\<close>

fun format_buttons :: "nat \<Rightarrow> button list \<Rightarrow> (string \<times> string) list" where
  "format_buttons index [] = []"
| "format_buttons index (btn # btns) =
     ((case btn_id btn of
         None \<Rightarrow> ''btn_'' @ show_nat index
       | Some i \<Rightarrow> if i = [] then ''btn_'' @ show_nat index else i),
      btn_text btn) # format_buttons (index + 1) btns"

definition sendButtonMessage ::
  "world \<Rightarrow> sessionId \<Rightarrow> string \<Rightarrow> string \<Rightarrow> button list \<Rightarrow> (js_error + string) \<times> world" where
  "sendButtonMessage w sessionId phoneNumber text buttons =
     (case (case getSession w sessionId of
              None \<Rightarrow> (Inl (new_Error (''Session '' @ sessionId @ '' not found'')), w)
            | Some session \<Rightarrow>
                let jid = formatPhoneNumber phoneNumber;
                    buttonMessage = ButtonP text (format_buttons 0 buttons)
                in (case transport_send w session jid buttonMessage of
                      (Delivered result, w1) \<Rightarrow> (Inr result, w1)
                    | (Rejected e, w1) \<Rightarrow> (Inl e, w1))) of
        (Inl error, w') \<Rightarrow>
          (Inl error, log_error w' (''Error sending button message: '' @ toString error))
      | (Inr result, w') \<Rightarrow> (Inr result, w'))"

text \<open>A queued task, as \<open>addToQueue\<close> builds it. \<open>task_buttons\<close> is \<open>options.buttons\<close>.\<close>

record task =
  task_sessionId :: sessionId
  task_phoneNumber :: string
  task_message :: string
  task_type :: string
  task_buttons :: "button list option"
  task_timestamp :: nat

record message_service =
  messageQueue :: "task list"
  processing :: bool

text \<open>
  The \<open>try\<close> block of \<open>processQueue\<close> for the task just taken from the queue: the dispatch
  by type, then the one-second wait. An error thrown by the dispatch leaves the block
  before the wait.
\<close>

definition processQueue_try :: "task \<Rightarrow> world \<Rightarrow> js_error option \<times> world" where
  "processQueue_try item w =
     and_then
       (if task_type item = ''text''
        then (case sendMessage w (task_sessionId item) (task_phoneNumber item) (task_message item) 0 of
                (v, w') \<Rightarrow> (None, w'))
        else if task_type item = ''button''
        then (case sendButtonMessage w (task_sessionId item) (task_phoneNumber item) (task_message item)
                     (case task_buttons item of Some bs \<Rightarrow> bs | None \<Rightarrow> []) of
                (Inl e, w') \<Rightarrow> (Some e, w')
              | (Inr v, w') \<Rightarrow> (None, w'))
        else (None, w))
       (\<lambda>w'. (None, wait 1000 w'))"

text \<open>
  \<open>processQueue\<close>, run until the queue is empty: each call takes the head of the queue,
  runs the \<open>try\<close> block with its \<open>catch\<close>, and calls itself.
\<close>

function processQueue :: "message_service \<Rightarrow> world \<Rightarrow> message_service \<times> world" where
  "processQueue ms w =
     (case messageQueue ms of
        [] \<Rightarrow> (ms\<lparr>processing := False\<rparr>, w)
      | item # rest \<Rightarrow>
          processQueue (ms\<lparr>processing := True, messageQueue := rest\<rparr>)
            (case processQueue_try item w of
               (None, w') \<Rightarrow> w'
             | (Some error, w') \<Rightarrow>
                 log_error w' (''Error processing queue item: '' @ toString error)))"
  by pat_completeness auto
termination
  by (relation "measure (\<lambda>(ms, w). length (messageQueue ms))") auto

declare processQueue.simps [simp del]

definition addToQueue ::
  "message_service \<Rightarrow> world \<Rightarrow> sessionId \<Rightarrow> string \<Rightarrow> string \<Rightarrow> string \<Rightarrow> button list option \<Rightarrow>
   message_service \<times> world" where
  "addToQueue ms w sessionId phoneNumber message type options_buttons =
     (let ms1 = ms\<lparr>messageQueue := messageQueue ms @
                  [\<lparr>task_sessionId = sessionId, task_phoneNumber = phoneNumber,
                    task_message = message, task_type = type,
                    task_buttons = options_buttons, task_timestamp = clock w\<rparr>]\<rparr>
      in if \<not> processing ms1 then processQueue ms1 w else (ms1, w))"

section \<open>Failing surroundings\<close>

text \<open>Whether closing the socket registered for a session throws.\<close>

definition close_throws :: "world \<Rightarrow> sessionId \<Rightarrow> bool" where
  "close_throws w sessionId =
     (case sessions w sessionId of None \<Rightarrow> False | Some a \<Rightarrow> end_throws w a)"

section \<open>Concrete states\<close>

text \<open>
  States the process reaches, built by running the model from the state the constructors
  leave, for the session id \<open>a\<close>.
\<close>

definition no_callbacks :: callbacks where
  "no_callbacks = \<lparr>cb_isNew = False, cb_retryCount = None, cb_onQR = False,
     cb_onConnected = False, cb_onDisconnected = False, cb_onMessage = False\<rparr>"

definition no_socket :: sock where
  "no_socket = \<lparr>sock_sessionId = [], sock_callbacks = no_callbacks, sock_version = [],
     sock_user = None, sock_live = False\<rparr>"

text \<open>The rate bound of the health policy is a parameter of the world. The concrete
  states below take the one that permits every attempt, so that they are states with
  reconnection permitted; no statement about every world depends on this choice.\<close>

definition rate_permits :: "(event_kind \<times> nat) list \<Rightarrow> nat \<Rightarrow> bool" where
  "rate_permits evs now = True"

text \<open>Three transports: one that always fails with a closed connection, one that always
  fails with the corruption signature, one whose first send fails and whose later sends succeed.\<close>

definition always_closed :: "nat \<Rightarrow> send_outcome" where
  "always_closed n = Rejected (JsError ''Error'' ''Connection Closed'' None)"

definition always_bad_mac :: "nat \<Rightarrow> send_outcome" where
  "always_bad_mac n = Rejected (JsError ''Error'' ''Bad MAC'' None)"

definition first_closed :: "nat \<Rightarrow> send_outcome" where
  "first_closed n =
     (if n = 0 then Rejected (JsError ''Error'' ''Connection Closed'' None) else Delivered ''msg'')"

text \<open>The state after the two constructors: empty maps, no timers, and on disk the auth
  directory \<open>/app/src/auth_sessions\<close> (\<open>__dirname\<close> joined with \<open>../../auth_sessions\<close>) with
  its ancestors.\<close>

definition app_authDir :: path where
  "app_authDir = [''app'', ''src'', ''auth_sessions'']"

definition new_world :: world where
  "new_world =
     \<lparr>sockets = (\<lambda>a. no_socket), next_addr = 0, sessions = Map.empty, qrCodes = Map.empty,
      authDir = app_authDir,
      dirs = [[], [''app''], [''app'', ''src''], app_authDir],
      health = Map.empty, clock = 0, timers = [], trace = [],
      end_throws = (\<lambda>a. False), rmSync_throws = (\<lambda>p. False), send_result = always_closed,
      toDataURL = (\<lambda>qr. ''data:image/png;base64,'' @ qr), rate_ok = rate_permits\<rparr>"

definition plain_env :: create_env where
  "plain_env = \<lparr>auth_load_throws = False, auth_reload_throws = False,
     latest_version = None, makeWASocket_throws = False\<rparr>"

text \<open>The transport sets \<open>sock.user\<close> when pairing completes.\<close>

definition authenticated :: "world \<Rightarrow> addr \<Rightarrow> string \<Rightarrow> world" where
  "authenticated w a user = w\<lparr>sockets := (sockets w)(a := (sockets w a)\<lparr>sock_user := Some user\<rparr>)\<rparr>"

text \<open>After \<open>createSession('a', {})\<close>: one socket, connecting, not authenticated.\<close>

definition pending_world :: world where
  "pending_world = snd (createSession plain_env new_world ''a'' no_callbacks)"

text \<open>The same session once authenticated.\<close>

definition connected_world :: world where
  "connected_world = authenticated pending_world 0 ''201066284516:1@s.whatsapp.net''"

definition corrupted_world :: world where
  "corrupted_world = connected_world\<lparr>send_result := always_bad_mac\<rparr>"

definition first_closed_world :: world where
  "first_closed_world = connected_world\<lparr>send_result := first_closed\<rparr>"

text \<open>The connected session on a disk whose directory cannot be deleted.\<close>

definition locked_world :: world where
  "locked_world = connected_world\<lparr>rmSync_throws := (\<lambda>p. True)\<rparr>"

definition qr_update :: update where
  "qr_update = \<lparr>upd_connection = Some Connecting, upd_lastDisconnect = None, upd_qr = Some ''2@qr''\<rparr>"

text \<open>The pending session after a QR event, with a socket whose \<open>end\<close> throws.\<close>

definition stuck_world :: world where
  "stuck_world =
     snd (connection_update (pending_world\<lparr>end_throws := (\<lambda>a. True)\<rparr>) 0 qr_update)"

text \<open>A close event that is neither a logout nor a corruption.\<close>

definition close_update :: update where
  "close_update = \<lparr>upd_connection = Some Close,
     upd_lastDisconnect =
       Some (LastDisconnect (Some (JsError ''Error'' ''Connection Closed'' (Some 428)))),
     upd_qr = None\<rparr>"

definition once_retried :: callbacks where
  "once_retried = no_callbacks\<lparr>cb_retryCount := Some 1\<rparr>"

definition twice_retried :: callbacks where
  "twice_retried = no_callbacks\<lparr>cb_retryCount := Some 2\<rparr>"

text \<open>The pending session after its connection closed, and after the timer it set has fired.\<close>

definition dropped_world :: world where
  "dropped_world = snd (connection_update pending_world 0 close_update)"

definition redial_world :: world where
  "redial_world = snd (createSession plain_env dropped_world ''a'' once_retried)"

definition media_task :: task where
  "media_task = \<lparr>task_sessionId = ''a'', task_phoneNumber = ''+20 106-628-4516'',
     task_message = ''look'', task_type = ''media'', task_buttons = None, task_timestamp = 0\<rparr>"

definition button_then_text :: "task list" where
  "button_then_text =
     [\<lparr>task_sessionId = ''a'', task_phoneNumber = ''+20 106-628-4516'', task_message = ''pick'',
       task_type = ''button'', task_buttons = Some [Button None ''Yes''], task_timestamp = 0\<rparr>,
      \<lparr>task_sessionId = ''a'', task_phoneNumber = ''+20 106-628-4516'', task_message = ''hi'',
       task_type = ''text'', task_buttons = None, task_timestamp = 0\<rparr>]"

definition idle_service :: "task list \<Rightarrow> message_service" where
  "idle_service q = \<lparr>messageQueue = q, processing = False\<rparr>"


section \<open>Facts about the string operations\<close>

lemma startsWith_iff: "startsWith s p \<longleftrightarrow> (\<exists>r. s = p @ r)"
  by (induction s p rule: startsWith.induct) auto

lemma includes_iff: "str_includes s p \<longleftrightarrow> (\<exists>a b. s = a @ p @ b)"
proof (induction s)
  case Nil
  then show ?case by auto
next
  case (Cons c cs)
  show ?case
  proof
    assume "str_includes (c # cs) p"
    then consider "startsWith (c # cs) p" | "str_includes cs p" by auto
    then show "\<exists>a b. c # cs = a @ p @ b"
    proof cases
      case 1
      then obtain r where "c # cs = p @ r" by (auto simp: startsWith_iff)
      then have "c # cs = [] @ p @ r" by simp
      then show ?thesis by blast
    next
      case 2
      then obtain a b where "cs = a @ p @ b" using Cons.IH by auto
      then have "c # cs = (c # a) @ p @ b" by simp
      then show ?thesis by blast
    qed
  next
    assume "\<exists>a b. c # cs = a @ p @ b"
    then obtain a b where ab: "c # cs = a @ p @ b" by blast
    show "str_includes (c # cs) p"
    proof (cases a)
      case Nil
      with ab have "startsWith (c # cs) p" by (auto simp: startsWith_iff)
      then show ?thesis by simp
    next
      case (Cons x a')
      with ab have "cs = a' @ p @ b" by simp
      then have "str_includes cs p" using Cons.IH by blast
      then show ?thesis by simp
    qed
  qed
qed

lemma includes_single: "str_includes s [c] \<longleftrightarrow> c \<in> set s"
  by (induction s) auto

lemma replace_non_digit_plus_filter:
  "replace_non_digit_plus s = filter (\<lambda>c. c \<in> set ''0123456789+'') s"
  by (induction s) (auto simp: is_digit_def)

lemma startsWith_single: "startsWith s [c] \<longleftrightarrow> s \<noteq> [] \<and> hd s = c"
  by (cases s) auto

section \<open>Address normalisation\<close>

text \<open>
  C8. \<open>formatPhoneNumber\<close> returns its input unchanged when the input contains \<open>@\<close>.
  Otherwise it keeps exactly the digits and \<open>+\<close> signs of the input, in order, drops one
  leading \<open>+\<close> of what is kept, and appends \<open>@s.whatsapp.net\<close>. In particular
  \<open>+20 106-628-4516\<close> becomes \<open>201066284516@s.whatsapp.net\<close> and
  \<open>201066284516@s.whatsapp.net\<close> is returned as it is.
\<close>

theorem formatPhoneNumber_normalises:
  "(CHR ''@'' \<in> set s \<longrightarrow> formatPhoneNumber s = s) \<and>
   (CHR ''@'' \<notin> set s \<longrightarrow>
      formatPhoneNumber s =
        (let kept = filter (\<lambda>c. c \<in> set ''0123456789+'') s
         in (if kept \<noteq> [] \<and> hd kept = CHR ''+'' then tl kept else kept) @ ''@s.whatsapp.net'')) \<and>
   formatPhoneNumber ''+20 106-628-4516'' = ''201066284516@s.whatsapp.net'' \<and>
   formatPhoneNumber ''201066284516@s.whatsapp.net'' = ''201066284516@s.whatsapp.net''"
proof -
  have pass: "CHR ''@'' \<in> set s \<longrightarrow> formatPhoneNumber s = s"
    by (simp add: formatPhoneNumber_def includes_single)
  have strip: "CHR ''@'' \<notin> set s \<longrightarrow>
      formatPhoneNumber s =
        (let kept = filter (\<lambda>c. c \<in> set ''0123456789+'') s
         in (if kept \<noteq> [] \<and> hd kept = CHR ''+'' then tl kept else kept) @ ''@s.whatsapp.net'')"
    by (simp add: formatPhoneNumber_def includes_single replace_non_digit_plus_filter
        startsWith_single substring_def Let_def drop_Suc)
  have ex1: "formatPhoneNumber ''+20 106-628-4516'' = ''201066284516@s.whatsapp.net''"
    by (simp add: formatPhoneNumber_def is_digit_def substring_def)
  have ex2: "formatPhoneNumber ''201066284516@s.whatsapp.net'' = ''201066284516@s.whatsapp.net''"
    by (simp add: formatPhoneNumber_def)
  from pass strip ex1 ex2 show ?thesis by blast
qed

theorem formatPhoneNumber_normalises_witness:
  "CHR ''@'' \<in> set ''a@b'' \<and> formatPhoneNumber ''a@b'' = ''a@b'' \<and>
   CHR ''@'' \<notin> set ''++1 (2)x'' \<and> formatPhoneNumber ''++1 (2)x'' = ''+12@s.whatsapp.net''"
  using formatPhoneNumber_normalises [of "''a@b''"] formatPhoneNumber_normalises [of "''++1 (2)x''"]
  by simp

section \<open>Facts about the concrete states\<close>

lemma pending_world_eq:
  "pending_world =
     \<lparr>sockets = (\<lambda>a. no_socket)(0 := \<lparr>sock_sessionId = ''a'', sock_callbacks = no_callbacks,
          sock_version = [2, 3000, 1015901307], sock_user = None, sock_live = True\<rparr>),
      next_addr = 1, sessions = [''a'' \<mapsto> 0], qrCodes = Map.empty,
      authDir = app_authDir,
      dirs = [[], [''app''], [''app'', ''src''], app_authDir, app_authDir @ [''a'']],
      health = [''a'' \<mapsto> []], clock = 0, timers = [],
      trace = [SocketOpened 0],
      end_throws = (\<lambda>a. False), rmSync_throws = (\<lambda>p. False), send_result = always_closed,
      toDataURL = (\<lambda>qr. ''data:image/png;base64,'' @ qr), rate_ok = rate_permits\<rparr>"
  by (simp add: pending_world_def createSession_def createSession_open_def new_world_def
      no_callbacks_def plain_env_def createSession_auth_def startMonitoring_def makeWASocket_def
      sessionPath_def path_join_def path_step_def existsSync_def mkdirSync_def app_authDir_def
      Let_def)

lemma connected_world_eq:
  "connected_world =
     \<lparr>sockets = (\<lambda>a. no_socket)(0 := \<lparr>sock_sessionId = ''a'', sock_callbacks = no_callbacks,
          sock_version = [2, 3000, 1015901307],
          sock_user = Some ''201066284516:1@s.whatsapp.net'', sock_live = True\<rparr>),
      next_addr = 1, sessions = [''a'' \<mapsto> 0], qrCodes = Map.empty,
      authDir = app_authDir,
      dirs = [[], [''app''], [''app'', ''src''], app_authDir, app_authDir @ [''a'']],
      health = [''a'' \<mapsto> []], clock = 0, timers = [],
      trace = [SocketOpened 0],
      end_throws = (\<lambda>a. False), rmSync_throws = (\<lambda>p. False), send_result = always_closed,
      toDataURL = (\<lambda>qr. ''data:image/png;base64,'' @ qr), rate_ok = rate_permits\<rparr>"
  by (simp add: connected_world_def pending_world_eq authenticated_def)

lemma stuck_world_eq:
  "stuck_world =
     pending_world\<lparr>end_throws := (\<lambda>a. True), qrCodes := [''a'' \<mapsto> ''data:image/png;base64,2@qr'']\<rparr>"
  by (simp add: stuck_world_def connection_update_def on_qr_def on_close_def on_open_def
      and_then_def qr_update_def pending_world_eq no_callbacks_def Let_def)

lemma dropped_world_eq:
  "dropped_world =
     \<lparr>sockets = (\<lambda>a. no_socket)(0 := \<lparr>sock_sessionId = ''a'', sock_callbacks = no_callbacks,
          sock_version = [2, 3000, 1015901307], sock_user = None, sock_live = False\<rparr>),
      next_addr = 1, sessions = [''a'' \<mapsto> 0], qrCodes = Map.empty,
      authDir = app_authDir,
      dirs = [[], [''app''], [''app'', ''src''], app_authDir, app_authDir @ [''a'']],
      health = [''a'' \<mapsto> [(failure, 0), (reconnect, 0)]], clock = 0,
      timers = [(3000, CreateSessionT ''a'' once_retried)],
      trace = [SocketOpened 0],
      end_throws = (\<lambda>a. False), rmSync_throws = (\<lambda>p. False), send_result = always_closed,
      toDataURL = (\<lambda>qr. ''data:image/png;base64,'' @ qr), rate_ok = rate_permits\<rparr>"
  by (simp add: dropped_world_def connection_update_def on_qr_def on_close_def on_open_def
      and_then_def close_update_def pending_world_eq no_callbacks_def once_retried_def Let_def
      recordEvent_def events_def shouldAttemptConnection_def recorded_def rate_permits_def
      toString_def setTimeout_def retryDelay_def DisconnectReason_loggedOut_def)

lemma redial_world_eq:
  "redial_world =
     \<lparr>sockets = (\<lambda>a. no_socket)
         (0 := \<lparr>sock_sessionId = ''a'', sock_callbacks = no_callbacks,
                sock_version = [2, 3000, 1015901307], sock_user = None, sock_live = False\<rparr>,
          1 := \<lparr>sock_sessionId = ''a'', sock_callbacks = once_retried,
                sock_version = [2, 3000, 1015901307], sock_user = None, sock_live = True\<rparr>),
      next_addr = 2, sessions = [''a'' \<mapsto> 1], qrCodes = Map.empty,
      authDir = app_authDir,
      dirs = [[], [''app''], [''app'', ''src''], app_authDir, app_authDir @ [''a'']],
      health = [''a'' \<mapsto> [(failure, 0), (reconnect, 0)]], clock = 0,
      timers = [(3000, CreateSessionT ''a'' once_retried)],
      trace = [SocketOpened 0, SocketOpened 1],
      end_throws = (\<lambda>a. False), rmSync_throws = (\<lambda>p. False), send_result = always_closed,
      toDataURL = (\<lambda>qr. ''data:image/png;base64,'' @ qr), rate_ok = rate_permits\<rparr>"
  by (simp add: redial_world_def dropped_world_eq createSession_def createSession_open_def
      isConnected_def no_callbacks_def once_retried_def plain_env_def createSession_auth_def
      startMonitoring_def makeWASocket_def sessionPath_def path_join_def path_step_def
      existsSync_def app_authDir_def Let_def)

lemma redial_world_second_drop:
  "timers (snd (connection_update redial_world 1 close_update)) =
     timers redial_world @ [(6000, CreateSessionT ''a'' twice_retried)]"
  by (simp add: redial_world_eq connection_update_def on_qr_def on_close_def on_open_def
      and_then_def close_update_def no_callbacks_def once_retried_def twice_retried_def Let_def
      recordEvent_def events_def shouldAttemptConnection_def recorded_def rate_permits_def
      toString_def setTimeout_def retryDelay_def DisconnectReason_loggedOut_def)

section \<open>Facts about sending\<close>

lemma sendMessage_catch_returned:
  "sendMessage_catch p (case r of (v, w2) \<Rightarrow> (Inr v, w2)) = r"
  by (cases r) (simp add: sendMessage_catch_def)

lemma sendMessage_catch_Inr [simp]: "sendMessage_catch p (Inr v, w) = (v, w)"
  by (simp add: sendMessage_catch_def)

lemma sendMessage_catch_Inl [simp]:
  "sendMessage_catch p (Inl e, w) =
     (ReturnedNull, log_error w (''Failed to send message to '' @ p @ '': '' @ err_message e))"
  by (simp add: sendMessage_catch_def)

text \<open>One failed attempt with a transient error: a retry after two seconds while
  \<open>retryCount < 2\<close>, and \<open>null\<close> from the outer \<open>catch\<close> after that.\<close>

lemma sendMessage_transient_step:
  assumes "getSession w sid = Some session"
    and "sock_user (sockets w session) = Some u"
    and "send_result w (length (sends w)) = Rejected e"
    and "\<not> str_includes (toString e) ''Bad MAC''"
    and "\<not> str_includes (toString e) ''Session Error''"
  shows "sendMessage w sid p m rc =
     (if rc < 2
      then sendMessage
             (wait 2000 (w\<lparr>trace := trace w @ [Send session (formatPhoneNumber p) (TextP m)]\<rparr>))
             sid p m (Suc rc)
      else (ReturnedNull,
            log_error (w\<lparr>trace := trace w @ [Send session (formatPhoneNumber p) (TextP m)]\<rparr>)
              (''Failed to send message to '' @ p @ '': '' @ err_message e)))"
proof (cases "rc < 2")
  case True
  with assms show ?thesis
    by (subst sendMessage.simps)
       (simp add: transport_send_def Let_def sendMessage_catch_returned)
next
  case False
  with assms show ?thesis
    by (subst sendMessage.simps) (simp add: transport_send_def Let_def)
qed

lemma connected_world_session:
  "getSession connected_world ''a'' = Some 0"
  "sock_user (sockets connected_world 0) = Some ''201066284516:1@s.whatsapp.net''"
  "sends connected_world = []"
  "trace connected_world = [SocketOpened 0]"
  by (simp_all add: connected_world_eq getSession_def sends_def)

lemma always_closed_transient:
  "\<forall>n. \<exists>e. send_result connected_world n = Rejected e \<and>
      \<not> str_includes (toString e) ''Bad MAC'' \<and> \<not> str_includes (toString e) ''Session Error''"
  by (simp add: connected_world_eq always_closed_def toString_def)

lemma corrupted_world_session:
  "getSession corrupted_world ''a'' = Some 0"
  "sock_user (sockets corrupted_world 0) = Some ''201066284516:1@s.whatsapp.net''"
  "send_result corrupted_world (length (sends corrupted_world)) =
     Rejected (JsError ''Error'' ''Bad MAC'' None)"
  "trace corrupted_world = [SocketOpened 0]"
  by (simp_all add: corrupted_world_def connected_world_eq getSession_def sends_def
      always_bad_mac_def)

lemma formatPhoneNumber_example:
  "formatPhoneNumber ''+20 106-628-4516'' = ''201066284516@s.whatsapp.net''"
  by (simp add: formatPhoneNumber_def is_digit_def substring_def)

section \<open>Facts about removal\<close>

lemma removeSession_close_fails:
  assumes "close_throws w sid"
  shows "removeSession w sid =
     log_error w (''Error removing session '' @ sid @ '': '' @
                  toString (new_Error ''socket close failed''))"
  using assms
  by (simp add: close_throws_def removeSession_def removeSession_socket_def sock_end_def
      and_then_def split: option.splits)

text \<open>The state after the first three statements of the \<open>try\<close> block, when ending the
  socket does not throw.\<close>

lemma removeSession_before_files:
  assumes "\<not> close_throws w sid"
  shows "\<exists>w3. and_then (and_then (removeSession_socket sid w) (removeSession_qr sid))
                  (\<lambda>w'. (None, cleanup sid w')) = (None, w3) \<and>
              sessions w3 sid = None \<and> qrCodes w3 sid = None \<and> health w3 sid = None \<and>
              dirs w3 = dirs w \<and> authDir w3 = authDir w \<and> clock w3 = clock w \<and>
              rmSync_throws w3 = rmSync_throws w \<and>
              (case sessions w sid of None \<Rightarrow> True | Some a \<Rightarrow> \<not> sock_live (sockets w3 a)) \<and>
              trace w3 = trace w @ (case sessions w sid of None \<Rightarrow> [] | Some a \<Rightarrow> [SocketEnded a])"
  using assms
  by (auto simp: close_throws_def removeSession_socket_def removeSession_qr_def cleanup_def
      sock_end_def and_then_def split: option.splits)

lemma removeSession_all_steps:
  assumes "\<not> close_throws w sid"
    and "\<not> (existsSync w (sessionPath w sid) \<and> rmSync_throws w (sessionPath w sid))"
  shows "sessions (removeSession w sid) sid = None \<and> qrCodes (removeSession w sid) sid = None \<and>
         health (removeSession w sid) sid = None \<and>
         dirs (removeSession w sid) =
           (if existsSync w (sessionPath w sid)
            then filter (\<lambda>q. \<not> is_under (sessionPath w sid) q) (dirs w)
            else dirs w) \<and>
         \<not> existsSync (removeSession w sid) (sessionPath w sid) \<and>
         (case sessions w sid of
            None \<Rightarrow> True
          | Some a \<Rightarrow> \<not> sock_live (sockets (removeSession w sid) a)) \<and>
         clock (removeSession w sid) =
           clock w + (if existsSync w (sessionPath w sid) then 1000 else 0) \<and>
         trace (removeSession w sid) =
           trace w @ (case sessions w sid of None \<Rightarrow> [] | Some a \<Rightarrow> [SocketEnded a]) @
           (if existsSync w (sessionPath w sid) then [Wait 1000] else [])"
proof -
  obtain w3 where w3:
    "and_then (and_then (removeSession_socket sid w) (removeSession_qr sid))
       (\<lambda>w'. (None, cleanup sid w')) = (None, w3)"
    "sessions w3 sid = None" "qrCodes w3 sid = None" "health w3 sid = None"
    "dirs w3 = dirs w" "authDir w3 = authDir w" "clock w3 = clock w"
    "rmSync_throws w3 = rmSync_throws w"
    "case sessions w sid of None \<Rightarrow> True | Some a \<Rightarrow> \<not> sock_live (sockets w3 a)"
    "trace w3 = trace w @ (case sessions w sid of None \<Rightarrow> [] | Some a \<Rightarrow> [SocketEnded a])"
    using removeSession_before_files [OF assms(1)] by blast
  have p: "sessionPath w3 sid = sessionPath w sid" "existsSync w3 = existsSync w"
    using w3 by (simp_all add: sessionPath_def existsSync_def fun_eq_iff)
  show ?thesis
  proof (cases "existsSync w (sessionPath w sid)")
    case True
    with assms(2) have "\<not> rmSync_throws w (sessionPath w sid)" by simp
    with True w3 p have "removeSession w sid = rmSync (sessionPath w sid) (wait 1000 w3)"
      by (simp add: removeSession_def removeSession_files_def and_then_def wait_def Let_def)
    with True w3 show ?thesis
      by (simp add: rmSync_def wait_def existsSync_def is_under_def split: option.splits)
  next
    case False
    with w3 p have "removeSession w sid = w3"
      by (simp add: removeSession_def removeSession_files_def and_then_def Let_def)
    with False w3 p show ?thesis by (simp split: option.splits)
  qed
qed

lemma removeSession_rm_fails:
  assumes "\<not> close_throws w sid"
    and "existsSync w (sessionPath w sid)" and "rmSync_throws w (sessionPath w sid)"
  shows "sessions (removeSession w sid) sid = None \<and> qrCodes (removeSession w sid) sid = None \<and>
         health (removeSession w sid) sid = None \<and>
         dirs (removeSession w sid) = dirs w \<and>
         existsSync (removeSession w sid) (sessionPath w sid) \<and>
         (case sessions w sid of
            None \<Rightarrow> True
          | Some a \<Rightarrow> \<not> sock_live (sockets (removeSession w sid) a)) \<and>
         clock (removeSession w sid) = clock w + 1000 \<and>
         trace (removeSession w sid) =
           trace w @ (case sessions w sid of None \<Rightarrow> [] | Some a \<Rightarrow> [SocketEnded a]) @
           [Wait 1000,
            LogError (''Error removing session '' @ sid @ '': '' @
                      toString (new_Error ''rmSync failed''))]"
proof -
  obtain w3 where w3:
    "and_then (and_then (removeSession_socket sid w) (removeSession_qr sid))
       (\<lambda>w'. (None, cleanup sid w')) = (None, w3)"
    "sessions w3 sid = None" "qrCodes w3 sid = None" "health w3 sid = None"
    "dirs w3 = dirs w" "authDir w3 = authDir w" "clock w3 = clock w"
    "rmSync_throws w3 = rmSync_throws w"
    "case sessions w sid of None \<Rightarrow> True | Some a \<Rightarrow> \<not> sock_live (sockets w3 a)"
    "trace w3 = trace w @ (case sessions w sid of None \<Rightarrow> [] | Some a \<Rightarrow> [SocketEnded a])"
    using removeSession_before_files [OF assms(1)] by blast
  have p: "sessionPath w3 sid = sessionPath w sid" "existsSync w3 = existsSync w"
    using w3 by (simp_all add: sessionPath_def existsSync_def fun_eq_iff)
  from assms(2,3) w3 p have "removeSession w sid =
      log_error (wait 1000 w3)
        (''Error removing session '' @ sid @ '': '' @ toString (new_Error ''rmSync failed''))"
    by (simp add: removeSession_def removeSession_files_def and_then_def wait_def Let_def)
  with assms(2) w3 show ?thesis
    by (simp add: log_error_def wait_def existsSync_def split: option.splits)
qed

lemma timers_removeSession [simp]: "timers (removeSession w sid) = timers w"
  by (auto simp: removeSession_def removeSession_socket_def removeSession_qr_def
      removeSession_files_def cleanup_def sock_end_def and_then_def wait_def log_error_def
      rmSync_def Let_def split: option.splits)

lemma timers_recordEvent [simp]: "timers (recordEvent sid k w) = timers w"
  by (simp add: recordEvent_def)

lemma timers_handleSessionCorruption [simp]:
  "timers (handleSessionCorruption w sid cb) = timers w"
  by (simp add: handleSessionCorruption_def Let_def log_error_def)

section \<open>Facts about the close handler\<close>

lemma timers_on_qr [simp]: "timers (snd (on_qr sid cbs upd w)) = timers w"
  by (simp add: on_qr_def Let_def split: option.splits)

lemma on_qr_no_error [simp]: "fst (on_qr sid cbs upd w) = None"
  by (simp add: on_qr_def Let_def split: option.splits)

lemma timers_on_open [simp]: "timers (snd (on_open a sid cbs upd w)) = timers w"
  by (simp add: on_open_def Let_def)

lemma timers_on_close:
  "timers (snd (on_close a sid cbs upd w)) = timers w \<or>
   timers (snd (on_close a sid cbs upd w)) = timers w @ [(3000, RemoveSessionT sid)] \<or>
   (\<exists>r. r = (case cb_retryCount cbs of None \<Rightarrow> 0 | Some n \<Rightarrow> n) + 1 \<and> r \<le> 2 \<and>
        timers (snd (on_close a sid cbs upd w)) =
          timers w @ [(retryDelay r, CreateSessionT sid (cbs\<lparr>cb_retryCount := Some r\<rparr>))])"
  by (simp add: on_close_def Let_def setTimeout_def split: option.splits lastDisconnect.splits)

text \<open>What one run of the handler adds to the timers: nothing, the delayed removal, or one
  reconnection whose attempt number is one more than the number the socket's callbacks
  carry and whose delay is \<open>retryDelay\<close> of that number.\<close>

lemma timers_connection_update:
  "timers (snd (connection_update w a upd)) = timers w \<or>
   timers (snd (connection_update w a upd)) =
     timers w @ [(3000, RemoveSessionT (sock_sessionId (sockets w a)))] \<or>
   (\<exists>r. r = (case cb_retryCount (sock_callbacks (sockets w a)) of None \<Rightarrow> 0 | Some n \<Rightarrow> n) + 1 \<and>
        r \<le> 2 \<and>
        timers (snd (connection_update w a upd)) =
          timers w @ [(retryDelay r, CreateSessionT (sock_sessionId (sockets w a))
                         ((sock_callbacks (sockets w a))\<lparr>cb_retryCount := Some r\<rparr>))])"
proof -
  let ?sid = "sock_sessionId (sockets w a)" and ?cbs = "sock_callbacks (sockets w a)"
  obtain w1 where q: "on_qr ?sid ?cbs upd w = (None, w1)" and t1: "timers w1 = timers w"
    by (metis on_qr_no_error timers_on_qr prod.collapse)
  obtain e2 w2 where c: "on_close a ?sid ?cbs upd w1 = (e2, w2)"
    by (cases "on_close a ?sid ?cbs upd w1")
  have "timers (snd (connection_update w a upd)) = timers w2"
    using q c by (cases e2) (simp_all add: connection_update_def and_then_def Let_def)
  moreover have "w2 = snd (on_close a ?sid ?cbs upd w1)" using c by simp
  ultimately show ?thesis using timers_on_close [of a ?sid ?cbs upd w1] t1 by simp
qed

lemma retryDelay_mono: "retryDelay n \<le> retryDelay (Suc n)"
  by (cases n) (simp_all add: retryDelay_def min_le_iff_disj)

lemma retryDelay_cap: "retryDelay n \<le> 10000"
  by (simp add: retryDelay_def)

section \<open>Session registry\<close>

text \<open>
  C1. For every session id there is at most one live transport socket at any time; in
  particular \<open>createSession\<close> on an id that has a registry entry either returns the existing
  handle or does not leave two live sockets for the id. The source keeps this when the
  session is connected (fast path) and when \<open>isNew\<close> is set (\<open>removeSession\<close> ends the old
  socket first), and misses it otherwise: a second \<open>createSession('a', {})\<close> while the first
  socket is still connecting opens socket 1 and overwrites the entry of socket 0 without
  ending it, so two live sockets exist for \<open>a\<close>.
\<close>

theorem createSession_twice_two_live_sockets:
  "live_sockets pending_world ''a'' = [0] \<and>
   \<not> isConnected pending_world ''a'' \<and>
   fst (createSession plain_env pending_world ''a'' no_callbacks) = Inr 1 \<and>
   sessions (snd (createSession plain_env pending_world ''a'' no_callbacks)) ''a'' = Some 1 \<and>
   live_sockets (snd (createSession plain_env pending_world ''a'' no_callbacks)) ''a'' = [0, 1]"
  by (simp add: pending_world_eq createSession_def createSession_open_def isConnected_def
      no_callbacks_def plain_env_def createSession_auth_def startMonitoring_def makeWASocket_def
      sessionPath_def path_join_def path_step_def existsSync_def app_authDir_def
      Let_def live_sockets_def upt_rec)

text \<open>
  C7. When the session is connected, \<open>createSession\<close> with the same id returns the
  registered handle and changes nothing: no socket is opened, so no QR event can follow,
  and neither the QR cache nor the trace of callback calls is touched.
\<close>

theorem createSession_connected_idempotent:
  assumes "sessions w sid = Some sock" and "isConnected w sid"
  shows "createSession env w sid cbs = (Inr sock, w)"
  using assms by (simp add: createSession_def)

theorem createSession_connected_idempotent_witness:
  "sessions connected_world ''a'' = Some 0 \<and> isConnected connected_world ''a'' \<and>
   fst (createSession plain_env connected_world ''a'' no_callbacks) = Inr 0 \<and>
   snd (createSession plain_env connected_world ''a'' no_callbacks) = connected_world"
proof -
  have h1: "sessions connected_world ''a'' = Some 0"
    by (simp add: connected_world_eq)
  have h2: "isConnected connected_world ''a''"
    by (simp add: connected_world_eq isConnected_def)
  show ?thesis
    using h1 h2 createSession_connected_idempotent [OF h1 h2, of plain_env no_callbacks]
    by simp
qed

section \<open>Sending with retries\<close>

text \<open>
  C2. On a connected session whose transport rejects every send with an error that does
  not carry the corruption signature, \<open>sendMessage(sessionId, recipient, text, 0)\<close> makes
  exactly three send attempts, two seconds apart. The third error is then thrown inside
  the function, caught by its outer \<open>catch\<close> and logged, and the caller receives \<open>null\<close>:
  the send error is not propagated.
\<close>

theorem sendMessage_transient_three_attempts:
  assumes "getSession w sid = Some session"
    and "sock_user (sockets w session) = Some u"
    and "\<forall>n. \<exists>e. send_result w n = Rejected e \<and>
            \<not> str_includes (toString e) ''Bad MAC'' \<and>
            \<not> str_includes (toString e) ''Session Error''"
  shows "\<exists>e. send_result w (length (sends w) + 2) = Rejected e \<and>
     sendMessage w sid p m 0 =
       (ReturnedNull,
        w\<lparr>clock := clock w + 4000,
          trace := trace w @
            [Send session (formatPhoneNumber p) (TextP m), Wait 2000,
             Send session (formatPhoneNumber p) (TextP m), Wait 2000,
             Send session (formatPhoneNumber p) (TextP m),
             LogError (''Failed to send message to '' @ p @ '': '' @ err_message e)]\<rparr>)"
proof -
  let ?s = "Send session (formatPhoneNumber p) (TextP m)"
  obtain e0 where e0: "send_result w (length (sends w)) = Rejected e0"
    "\<not> str_includes (toString e0) ''Bad MAC''" "\<not> str_includes (toString e0) ''Session Error''"
    using assms(3) by blast
  obtain e1 where e1: "send_result w (length (sends w) + 1) = Rejected e1"
    "\<not> str_includes (toString e1) ''Bad MAC''" "\<not> str_includes (toString e1) ''Session Error''"
    using assms(3) by blast
  obtain e2 where e2: "send_result w (length (sends w) + 2) = Rejected e2"
    "\<not> str_includes (toString e2) ''Bad MAC''" "\<not> str_includes (toString e2) ''Session Error''"
    using assms(3) by blast
  define w1 where "w1 = wait 2000 (w\<lparr>trace := trace w @ [?s]\<rparr>)"
  define w2 where "w2 = wait 2000 (w1\<lparr>trace := trace w1 @ [?s]\<rparr>)"
  have s0: "sendMessage w sid p m 0 = sendMessage w1 sid p m (Suc 0)"
    using sendMessage_transient_step [OF assms(1) assms(2) e0, of p m 0] by (simp add: w1_def)
  have g1: "getSession w1 sid = Some session" "sock_user (sockets w1 session) = Some u"
    "send_result w1 (length (sends w1)) = Rejected e1"
    using assms(1,2) e1 by (simp_all add: w1_def getSession_def wait_def sends_def)
  have s1: "sendMessage w1 sid p m (Suc 0) = sendMessage w2 sid p m (Suc (Suc 0))"
    using sendMessage_transient_step [OF g1 e1(2,3), of p m "Suc 0"] by (simp add: w2_def)
  have g2: "getSession w2 sid = Some session" "sock_user (sockets w2 session) = Some u"
    "send_result w2 (length (sends w2)) = Rejected e2"
    using assms(1,2) e2 by (simp_all add: w2_def w1_def getSession_def wait_def sends_def)
  have s2: "sendMessage w2 sid p m (Suc (Suc 0)) =
      (ReturnedNull, log_error (w2\<lparr>trace := trace w2 @ [?s]\<rparr>)
         (''Failed to send message to '' @ p @ '': '' @ err_message e2))"
    using sendMessage_transient_step [OF g2 e2(2,3), of p m "Suc (Suc 0)"] by simp
  have "log_error (w2\<lparr>trace := trace w2 @ [?s]\<rparr>)
         (''Failed to send message to '' @ p @ '': '' @ err_message e2) =
        w\<lparr>clock := clock w + 4000,
          trace := trace w @ [?s, Wait 2000, ?s, Wait 2000, ?s,
             LogError (''Failed to send message to '' @ p @ '': '' @ err_message e2)]\<rparr>"
    by (simp add: w2_def w1_def wait_def log_error_def)
  with s0 s1 s2 e2(1) show ?thesis by simp
qed

theorem sendMessage_transient_three_attempts_witness:
  "getSession connected_world ''a'' = Some 0 \<and>
   sock_user (sockets connected_world 0) = Some ''201066284516:1@s.whatsapp.net'' \<and>
   (\<forall>n. \<exists>e. send_result connected_world n = Rejected e \<and>
      \<not> str_includes (toString e) ''Bad MAC'' \<and> \<not> str_includes (toString e) ''Session Error'') \<and>
   fst (sendMessage connected_world ''a'' ''+20 106-628-4516'' ''hello'' 0) = ReturnedNull \<and>
   length (sends (snd (sendMessage connected_world ''a'' ''+20 106-628-4516'' ''hello'' 0))) = 3"
  using connected_world_session always_closed_transient
    sendMessage_transient_three_attempts [OF connected_world_session(1,2) always_closed_transient,
      of "''+20 106-628-4516''" "''hello''"]
  by (auto simp: sends_def)

text \<open>The claim as first stated, with the error reaching the caller, fails: the call
  returns \<open>null\<close> after the third attempt.\<close>

theorem sendMessage_transient_returns_null:
  "fst (sendMessage connected_world ''a'' ''+20 106-628-4516'' ''hello'' 0) = ReturnedNull \<and>
   trace (snd (sendMessage connected_world ''a'' ''+20 106-628-4516'' ''hello'' 0)) =
     [SocketOpened 0,
      Send 0 ''201066284516@s.whatsapp.net'' (TextP ''hello''), Wait 2000,
      Send 0 ''201066284516@s.whatsapp.net'' (TextP ''hello''), Wait 2000,
      Send 0 ''201066284516@s.whatsapp.net'' (TextP ''hello''),
      LogError ''Failed to send message to +20 106-628-4516: Connection Closed'']"
  by (simp add: sendMessage.simps sendMessage_catch_def getSession_def connected_world_eq
      transport_send_def sends_def always_closed_def log_error_def wait_def toString_def
      formatPhoneNumber_example Let_def)

text \<open>
  C3. On a connected session whose transport rejects the send with an error whose text
  contains \<open>Bad MAC\<close> or \<open>Session Error\<close>, \<open>sendMessage\<close> makes exactly one send attempt and
  does not wait or retry, whatever \<open>retryCount\<close> it was called with. The
  \<open>CORRUPTED_SESSION\<close> error it throws is caught by its own outer \<open>catch\<close> and logged, and
  the caller receives \<open>null\<close>: no error is raised to the caller.
\<close>

theorem sendMessage_corruption_once:
  assumes "getSession w sid = Some session"
    and "sock_user (sockets w session) = Some u"
    and "send_result w (length (sends w)) = Rejected e"
    and "str_includes (toString e) ''Bad MAC'' \<or> str_includes (toString e) ''Session Error''"
  shows "sendMessage w sid p m rc =
       (ReturnedNull,
        w\<lparr>trace := trace w @
            [Send session (formatPhoneNumber p) (TextP m),
             LogError (''CRITICAL SESSION ERROR for '' @ sid @ '': '' @ toString e),
             LogError ''[MessageService] This session appears corrupted. Advising user to re-link.'',
             LogError (''Failed to send message to '' @ p @
                       '': CORRUPTED_SESSION: Please re-link WhatsApp'')]\<rparr>)"
  using assms
  by (subst sendMessage.simps)
     (auto simp add: transport_send_def Let_def log_error_def new_Error_def)

theorem sendMessage_corruption_once_witness:
  "getSession corrupted_world ''a'' = Some 0 \<and>
   sock_user (sockets corrupted_world 0) = Some ''201066284516:1@s.whatsapp.net'' \<and>
   send_result corrupted_world (length (sends corrupted_world)) =
     Rejected (JsError ''Error'' ''Bad MAC'' None) \<and>
   str_includes (toString (JsError ''Error'' ''Bad MAC'' None)) ''Bad MAC'' \<and>
   fst (sendMessage corrupted_world ''a'' ''+20 106-628-4516'' ''hello'' 0) = ReturnedNull \<and>
   length (sends (snd (sendMessage corrupted_world ''a'' ''+20 106-628-4516'' ''hello'' 0))) = 1"
proof -
  have sig: "str_includes (toString (JsError ''Error'' ''Bad MAC'' None)) ''Bad MAC'' \<or>
             str_includes (toString (JsError ''Error'' ''Bad MAC'' None)) ''Session Error''"
    by (simp add: toString_def)
  show ?thesis
    using corrupted_world_session
      sendMessage_corruption_once [OF corrupted_world_session(1,2,3) sig,
        of "''+20 106-628-4516''" "''hello''" 0]
    by (simp add: sends_def toString_def)
qed

text \<open>The claim as first stated, with a terminal error raised to the caller, fails: the
  call returns \<open>null\<close>, the same value as after an exhausted retry budget.\<close>

theorem sendMessage_corruption_returns_null:
  "fst (sendMessage corrupted_world ''a'' ''+20 106-628-4516'' ''hello'' 0) = ReturnedNull \<and>
   trace (snd (sendMessage corrupted_world ''a'' ''+20 106-628-4516'' ''hello'' 0)) =
     [SocketOpened 0,
      Send 0 ''201066284516@s.whatsapp.net'' (TextP ''hello''),
      LogError ''CRITICAL SESSION ERROR for a: Error: Bad MAC'',
      LogError ''[MessageService] This session appears corrupted. Advising user to re-link.'',
      LogError ''Failed to send message to +20 106-628-4516: CORRUPTED_SESSION: Please re-link WhatsApp'']"
  by (simp add: sendMessage.simps sendMessage_catch_def getSession_def corrupted_world_def
      connected_world_eq transport_send_def sends_def always_bad_mac_def log_error_def
      new_Error_def toString_def formatPhoneNumber_example Let_def)

section \<open>Removal\<close>

text \<open>
  C4. \<open>removeSession\<close> runs its sub-steps in order inside one \<open>try\<close> block and never throws.
  When no sub-step fails all of them run: the socket is ended, the registry entry, the QR
  entry and the health record are removed, and, if the session's path exists, the
  function waits 1000 ms and deletes it with everything below it; nothing is logged. When
  a sub-step throws, the error is logged and the sub-steps after it are skipped: if
  ending the socket throws, the error is logged and nothing else happens; if deleting the
  directory throws, everything before it has been done, the wait has passed, the
  directories are all still there, and the error is logged.
\<close>

theorem removeSession_single_try_block:
  "(\<not> close_throws w sid \<and>
    \<not> (existsSync w (sessionPath w sid) \<and> rmSync_throws w (sessionPath w sid)) \<longrightarrow>
      sessions (removeSession w sid) sid = None \<and> qrCodes (removeSession w sid) sid = None \<and>
      health (removeSession w sid) sid = None \<and>
      dirs (removeSession w sid) =
        (if existsSync w (sessionPath w sid)
         then filter (\<lambda>q. \<not> is_under (sessionPath w sid) q) (dirs w)
         else dirs w) \<and>
      \<not> existsSync (removeSession w sid) (sessionPath w sid) \<and>
      (case sessions w sid of
         None \<Rightarrow> True
       | Some a \<Rightarrow> \<not> sock_live (sockets (removeSession w sid) a)) \<and>
      clock (removeSession w sid) =
        clock w + (if existsSync w (sessionPath w sid) then 1000 else 0) \<and>
      trace (removeSession w sid) =
        trace w @ (case sessions w sid of None \<Rightarrow> [] | Some a \<Rightarrow> [SocketEnded a]) @
        (if existsSync w (sessionPath w sid) then [Wait 1000] else [])) \<and>
   (close_throws w sid \<longrightarrow>
      removeSession w sid =
        log_error w (''Error removing session '' @ sid @ '': '' @
                     toString (new_Error ''socket close failed''))) \<and>
   (\<not> close_throws w sid \<and>
    existsSync w (sessionPath w sid) \<and> rmSync_throws w (sessionPath w sid) \<longrightarrow>
      sessions (removeSession w sid) sid = None \<and> qrCodes (removeSession w sid) sid = None \<and>
      health (removeSession w sid) sid = None \<and>
      dirs (removeSession w sid) = dirs w \<and>
      existsSync (removeSession w sid) (sessionPath w sid) \<and>
      (case sessions w sid of
         None \<Rightarrow> True
       | Some a \<Rightarrow> \<not> sock_live (sockets (removeSession w sid) a)) \<and>
      clock (removeSession w sid) = clock w + 1000 \<and>
      trace (removeSession w sid) =
        trace w @ (case sessions w sid of None \<Rightarrow> [] | Some a \<Rightarrow> [SocketEnded a]) @
        [Wait 1000,
         LogError (''Error removing session '' @ sid @ '': '' @
                   toString (new_Error ''rmSync failed''))])"
  using removeSession_all_steps [of w sid] removeSession_close_fails [of w sid]
    removeSession_rm_fails [of w sid]
  by blast

theorem removeSession_single_try_block_witness:
  "\<not> close_throws connected_world ''a'' \<and>
   existsSync connected_world (sessionPath connected_world ''a'') \<and>
   rmSync_throws connected_world (sessionPath connected_world ''a'') = False \<and>
   sessions (removeSession connected_world ''a'') ''a'' = None \<and>
   health (removeSession connected_world ''a'') ''a'' = None \<and>
   dirs (removeSession connected_world ''a'') = [[], [''app''], [''app'', ''src''], app_authDir] \<and>
   sock_live (sockets (removeSession connected_world ''a'') 0) = False \<and>
   trace (removeSession connected_world ''a'') = [SocketOpened 0, SocketEnded 0, Wait 1000] \<and>
   sessions connected_world [] = None \<and>
   sessionPath connected_world [] = app_authDir \<and>
   dirs (removeSession connected_world []) = [[], [''app''], [''app'', ''src'']] \<and>
   trace (removeSession connected_world []) = [SocketOpened 0, Wait 1000] \<and>
   close_throws stuck_world ''a'' \<and>
   trace (removeSession stuck_world ''a'') =
     [SocketOpened 0, LogError ''Error removing session a: Error: socket close failed''] \<and>
   existsSync locked_world (sessionPath locked_world ''a'') \<and>
   rmSync_throws locked_world (sessionPath locked_world ''a'') \<and>
   sessions (removeSession locked_world ''a'') ''a'' = None \<and>
   dirs (removeSession locked_world ''a'') = dirs locked_world \<and>
   clock (removeSession locked_world ''a'') = 1000 \<and>
   trace (removeSession locked_world ''a'') =
     [SocketOpened 0, SocketEnded 0, Wait 1000,
      LogError ''Error removing session a: Error: rmSync failed'']"
proof -
  have c: "\<not> close_throws connected_world ''a''" "\<not> close_throws connected_world []"
    "sessionPath connected_world ''a'' = app_authDir @ [''a'']"
    "sessionPath connected_world [] = app_authDir"
    "existsSync connected_world (app_authDir @ [''a''])"
    "existsSync connected_world app_authDir"
    "rmSync_throws connected_world = (\<lambda>p. False)"
    "sessions connected_world ''a'' = Some 0" "sessions connected_world [] = None"
    "trace connected_world = [SocketOpened 0]"
    "dirs connected_world =
       [[], [''app''], [''app'', ''src''], app_authDir, app_authDir @ [''a'']]"
    by (simp_all add: connected_world_eq close_throws_def sessionPath_def path_join_def
        path_step_def existsSync_def app_authDir_def)
  have s: "close_throws stuck_world ''a''" "trace stuck_world = [SocketOpened 0]"
    by (simp_all add: stuck_world_eq pending_world_eq close_throws_def)
  have l: "\<not> close_throws locked_world ''a''"
    "sessionPath locked_world ''a'' = app_authDir @ [''a'']"
    "existsSync locked_world (app_authDir @ [''a''])"
    "rmSync_throws locked_world = (\<lambda>p. True)"
    "sessions locked_world ''a'' = Some 0" "clock locked_world = 0"
    "trace locked_world = [SocketOpened 0]"
    by (simp_all add: locked_world_def connected_world_eq close_throws_def sessionPath_def
        path_join_def path_step_def existsSync_def app_authDir_def)
  show ?thesis
    using c s l removeSession_single_try_block [of connected_world "''a''"]
      removeSession_single_try_block [of connected_world "[]"]
      removeSession_single_try_block [of stuck_world "''a''"]
      removeSession_single_try_block [of locked_world "''a''"]
    by (simp add: log_error_def new_Error_def toString_def is_under_def app_authDir_def)
qed

text \<open>The claim as first stated, with every sub-step running whatever fails before it,
  fails: when ending the socket throws, the registry entry, the QR entry, the health
  record, the directory and the socket itself are all left as they were.\<close>

theorem removeSession_close_failure_skips_rest:
  "sessions (removeSession stuck_world ''a'') ''a'' = Some 0 \<and>
   qrCodes (removeSession stuck_world ''a'') ''a'' = Some ''data:image/png;base64,2@qr'' \<and>
   health (removeSession stuck_world ''a'') ''a'' = Some [] \<and>
   existsSync (removeSession stuck_world ''a'') (sessionPath stuck_world ''a'') \<and>
   sock_live (sockets (removeSession stuck_world ''a'') 0)"
proof -
  have "close_throws stuck_world ''a''"
    by (simp add: stuck_world_eq pending_world_eq close_throws_def)
  then show ?thesis
    by (simp add: removeSession_close_fails log_error_def stuck_world_eq pending_world_eq
        existsSync_def sessionPath_def path_join_def path_step_def app_authDir_def)
qed

section \<open>Reconnection backoff\<close>

text \<open>
  C9. The delay before reconnection attempt \<open>n + 1\<close> is at least the delay before attempt
  \<open>n\<close>, and no delay exceeds 10000 ms. This holds of the formula for every attempt number,
  and of the handler: when a close event makes the handler schedule a reconnection, and a
  later close event on a socket created with the callbacks that reconnection carries makes
  it schedule another, the two are attempts \<open>n\<close> and \<open>n + 1\<close> with delays \<open>retryDelay n\<close> and
  \<open>retryDelay (n + 1)\<close>, the second not smaller than the first and not above the ceiling.
\<close>

theorem reconnect_backoff_nondecreasing_capped:
  "(\<forall>n. retryDelay n \<le> retryDelay (Suc n) \<and> retryDelay n \<le> 10000) \<and>
   (timers (snd (connection_update w a upd)) = timers w @ [(d1, CreateSessionT sid1 cbs1)] \<and>
    sock_callbacks (sockets v b) = cbs1 \<and>
    timers (snd (connection_update v b upd')) = timers v @ [(d2, CreateSessionT sid2 cbs2)]
    \<longrightarrow> (\<exists>n. cb_retryCount cbs1 = Some n \<and> cb_retryCount cbs2 = Some (Suc n) \<and>
             d1 = retryDelay n \<and> d2 = retryDelay (Suc n)) \<and>
        d1 \<le> d2 \<and> d2 \<le> 10000)"
proof (intro conjI allI impI)
  fix n
  show "retryDelay n \<le> retryDelay (Suc n)" by (rule retryDelay_mono)
  show "retryDelay n \<le> 10000" by (rule retryDelay_cap)
next
  assume h: "timers (snd (connection_update w a upd)) = timers w @ [(d1, CreateSessionT sid1 cbs1)] \<and>
    sock_callbacks (sockets v b) = cbs1 \<and>
    timers (snd (connection_update v b upd')) = timers v @ [(d2, CreateSessionT sid2 cbs2)]"
  from h timers_connection_update [of w a upd]
  obtain r where r: "d1 = retryDelay r"
    "cbs1 = (sock_callbacks (sockets w a))\<lparr>cb_retryCount := Some r\<rparr>"
    by auto
  from h timers_connection_update [of v b upd']
  obtain r' where r':
    "r' = (case cb_retryCount (sock_callbacks (sockets v b)) of None \<Rightarrow> 0 | Some n \<Rightarrow> n) + 1"
    "d2 = retryDelay r'" "cbs2 = (sock_callbacks (sockets v b))\<lparr>cb_retryCount := Some r'\<rparr>"
    by auto
  from h r r' have s: "r' = Suc r" by simp
  with r r' h show "\<exists>n. cb_retryCount cbs1 = Some n \<and> cb_retryCount cbs2 = Some (Suc n) \<and>
             d1 = retryDelay n \<and> d2 = retryDelay (Suc n)" by simp
  from s r r' show "d1 \<le> d2" by (simp add: retryDelay_mono)
  from r' show "d2 \<le> 10000" by (simp add: retryDelay_cap)
qed

theorem reconnect_backoff_nondecreasing_capped_witness:
  "timers (snd (connection_update pending_world 0 close_update)) =
     timers pending_world @ [(3000, CreateSessionT ''a'' once_retried)] \<and>
   sock_callbacks (sockets redial_world 1) = once_retried \<and>
   timers (snd (connection_update redial_world 1 close_update)) =
     timers redial_world @ [(6000, CreateSessionT ''a'' twice_retried)] \<and>
   cb_retryCount once_retried = Some 1 \<and> cb_retryCount twice_retried = Some 2 \<and>
   retryDelay 1 = 3000 \<and> retryDelay 2 = 6000 \<and> retryDelay 3 = 10000 \<and>
   (3000 :: nat) \<le> 6000 \<and> (6000 :: nat) \<le> 10000"
proof -
  have h1: "timers (snd (connection_update pending_world 0 close_update)) =
     timers pending_world @ [(3000, CreateSessionT ''a'' once_retried)]"
    unfolding dropped_world_def [symmetric] by (simp add: dropped_world_eq pending_world_eq)
  have h2: "sock_callbacks (sockets redial_world 1) = once_retried"
    by (simp add: redial_world_eq)
  note h3 = redial_world_second_drop
  have d: "retryDelay 1 = 3000" "retryDelay 2 = 6000" "retryDelay 3 = 10000"
    by (simp_all add: retryDelay_def)
  have c: "cb_retryCount once_retried = Some 1" "cb_retryCount twice_retried = Some 2"
    by (simp_all add: once_retried_def twice_retried_def)
  from h1 h2 h3 d c
    reconnect_backoff_nondecreasing_capped [of pending_world 0 close_update 3000 "''a''"
      once_retried redial_world 1 close_update 6000 "''a''" twice_retried]
  show ?thesis by simp
qed

section \<open>The dispatch queue\<close>

text \<open>
  C6. The drain loop processes the tasks in the order they were queued and waits the
  pacing delay after every task before it takes the next, whatever the outcome of the
  task. The source takes the tasks in order, and it has the wait inside the \<open>try\<close> block
  after the dispatch, so a dispatch that throws skips it: with a button task whose send
  the transport rejects, followed by a text task, the second send follows the first with
  no wait between them, and the only wait is the one after the text task.
\<close>

theorem processQueue_no_pause_after_throw:
  "fst (processQueue (idle_service button_then_text) first_closed_world) = idle_service [] \<and>
   trace (snd (processQueue (idle_service button_then_text) first_closed_world)) =
     [SocketOpened 0,
      Send 0 ''201066284516@s.whatsapp.net'' (ButtonP ''pick'' [(''btn_0'', ''Yes'')]),
      LogError ''Error sending button message: Error: Connection Closed'',
      LogError ''Error processing queue item: Error: Connection Closed'',
      Send 0 ''201066284516@s.whatsapp.net'' (TextP ''hi''),
      Wait 1000]"
  by (simp add: processQueue.simps idle_service_def button_then_text_def processQueue_try_def
      sendButtonMessage_def sendMessage.simps sendMessage_catch_def getSession_def
      first_closed_world_def connected_world_eq transport_send_def sends_def first_closed_def
      and_then_def log_error_def wait_def toString_def show_nat.simps formatPhoneNumber_def
      is_digit_def substring_def Let_def)

text \<open>
  C10. A queued task whose type is neither \<open>text\<close> nor \<open>button\<close> is taken from the queue
  and dropped: its \<open>try\<close> block throws nothing and does nothing but the one-second wait, so
  no send is attempted and no error is logged, and the loop goes on with the rest.
\<close>

theorem processQueue_unknown_type_dropped:
  assumes "messageQueue ms = item # rest"
    and "task_type item \<noteq> ''text''" and "task_type item \<noteq> ''button''"
  shows "processQueue_try item w = (None, wait 1000 w) \<and>
         trace (wait 1000 w) = trace w @ [Wait 1000] \<and>
         processQueue ms w =
           processQueue (ms\<lparr>processing := True, messageQueue := rest\<rparr>) (wait 1000 w)"
proof -
  have t: "processQueue_try item w = (None, wait 1000 w)"
    using assms(2,3) by (simp add: processQueue_try_def and_then_def)
  have "processQueue ms w =
           processQueue (ms\<lparr>processing := True, messageQueue := rest\<rparr>) (wait 1000 w)"
    by (subst processQueue.simps) (simp add: assms(1) t)
  with t show ?thesis by (simp add: wait_def)
qed

theorem processQueue_unknown_type_dropped_witness:
  "messageQueue (idle_service [media_task]) = media_task # [] \<and>
   task_type media_task \<noteq> ''text'' \<and> task_type media_task \<noteq> ''button'' \<and>
   fst (processQueue (idle_service [media_task]) connected_world) = idle_service [] \<and>
   trace (snd (processQueue (idle_service [media_task]) connected_world)) =
     [SocketOpened 0, Wait 1000]"
proof -
  have h1: "messageQueue (idle_service [media_task]) = media_task # []"
    by (simp add: idle_service_def)
  have h2: "task_type media_task \<noteq> ''text''" and h3: "task_type media_task \<noteq> ''button''"
    by (simp_all add: media_task_def)
  have e: "processQueue ((idle_service [media_task])\<lparr>processing := True, messageQueue := []\<rparr>)
             (wait 1000 connected_world) = (idle_service [], wait 1000 connected_world)"
    by (subst processQueue.simps) (simp add: idle_service_def)
  show ?thesis
    using h1 h2 h3 e processQueue_unknown_type_dropped [OF h1 h2 h3, of connected_world]
    by (simp add: connected_world_session(4))
qed

end
